theory Spec2Isabelle
  imports Main
begin

section \<open>JavaScript values of the JSON payload\<close>

text \<open>
  The page \<^verbatim>\<open>src/index3.html\<close> receives a JSON document from the server and reads
  scalar fields out of it. A field is absent (\<open>JUndefined\<close>), \<open>null\<close>, a boolean, a
  number or a string. Numbers are the integer-valued ones, with exact arithmetic (the
  JavaScript results agree below \<open>2 ^ 53\<close>); strings are ASCII.
\<close>

datatype jsval = JUndefined | JNull | JBool bool | JNum int | JStr string

text \<open>ToBoolean: what \<^verbatim>\<open>if (v)\<close>, \<^verbatim>\<open>!v\<close> and \<^verbatim>\<open>v || w\<close> test.\<close>

fun truthy :: "jsval \<Rightarrow> bool" where
  "truthy JUndefined = False"
| "truthy JNull = False"
| "truthy (JBool b) = b"
| "truthy (JNum n) = (n \<noteq> 0)"
| "truthy (JStr s) = (s \<noteq> [])"

text \<open>\<^verbatim>\<open>a || b\<close>: the first operand when it is truthy, the second otherwise.\<close>

definition js_or :: "jsval \<Rightarrow> jsval \<Rightarrow> jsval" where
  "js_or a b = (if truthy a then a else b)"

definition digit_char :: "nat \<Rightarrow> char" where
  "digit_char d = ''0123456789'' ! d"

function digits10 :: "nat \<Rightarrow> string" where
  "digits10 n = (if n < 10 then [digit_char n] else digits10 (n div 10) @ [digit_char (n mod 10)])"
  by pat_completeness auto
termination
  by (relation "measure (\<lambda>n. n)") auto

declare digits10.simps [simp del]

text \<open>ToString, as a template literal \<^verbatim>\<open>`${v}`\<close> applies it.\<close>

fun to_string :: "jsval \<Rightarrow> string" where
  "to_string JUndefined = ''undefined''"
| "to_string JNull = ''null''"
| "to_string (JBool b) = (if b then ''true'' else ''false'')"
| "to_string (JNum n) = (if n < 0 then ''-'' @ digits10 (nat (- n)) else digits10 (nat n))"
| "to_string (JStr s) = s"

subsection \<open>parseInt without a radix argument\<close>

definition is_ws :: "char \<Rightarrow> bool" where
  "is_ws c = (c \<in> set [CHR 0x09, CHR 0x0A, CHR 0x0B, CHR 0x0C, CHR 0x0D, CHR '' ''])"

definition digit_val :: "char \<Rightarrow> nat option" where
  "digit_val c =
     (let n = (of_char c :: nat) in
      if 48 \<le> n \<and> n \<le> 57 then Some (n - 48)
      else if 97 \<le> n \<and> n \<le> 122 then Some (n - 87)
      else if 65 \<le> n \<and> n \<le> 90 then Some (n - 55)
      else None)"

definition radix_digit :: "nat \<Rightarrow> char \<Rightarrow> bool" where
  "radix_digit R c = (case digit_val c of None \<Rightarrow> False | Some d \<Rightarrow> d < R)"

definition digits_value :: "nat \<Rightarrow> string \<Rightarrow> nat" where
  "digits_value R Z =
     foldl (\<lambda>acc c. acc * R + (case digit_val c of None \<Rightarrow> 0 | Some d \<Rightarrow> d)) 0 Z"

text \<open>
  The steps of the language standard: convert to a string, drop leading white space, read
  a sign, switch to radix 16 after a \<^verbatim>\<open>0x\<close> prefix, keep the longest prefix of digits.
  \<open>None\<close> is \<^verbatim>\<open>NaN\<close>.
\<close>

definition parseInt :: "jsval \<Rightarrow> int option" where
  "parseInt v =
     (let S = dropWhile is_ws (to_string v);
          sign = (if take 1 S = ''-'' then - 1 else (1::int));
          S1 = (if take 1 S = ''+'' \<or> take 1 S = ''-'' then drop 1 S else S);
          hex = (take 2 S1 = ''0x'' \<or> take 2 S1 = ''0X'');
          R = (if hex then 16 else 10);
          S2 = (if hex then drop 2 S1 else S1);
          Z = takeWhile (radix_digit R) S2
      in if Z = [] then None else Some (sign * int (digits_value R Z)))"

text \<open>\<^verbatim>\<open>parseInt(v) || 0\<close>: \<^verbatim>\<open>NaN\<close> and 0 are falsy.\<close>

definition parseInt_or_0 :: "jsval \<Rightarrow> int" where
  "parseInt_or_0 v = (case parseInt v of None \<Rightarrow> 0 | Some n \<Rightarrow> if n \<noteq> 0 then n else 0)"

section \<open>The payload\<close>

record reference_entry =
  page :: jsval
  No :: jsval
  Reference_Code :: jsval

record glass_entry =
  ref_no :: jsval
  ref_code :: jsval
  GW :: jsval
  GH :: jsval
  Qty :: jsval

text \<open>
  \<open>None\<close> for \<open>reference_code\<close>, \<open>glass_data\<close> or \<open>product_messages\<close> is an absent or
  \<open>null\<close> field; \<open>Some xs\<close> is an array.
\<close>

record payload =
  reference_code :: "reference_entry list option"
  glass_data :: "glass_entry list option"
  total_references :: jsval
  product_messages :: "jsval list option"

section \<open>The page\<close>

text \<open>One \<^verbatim>\<open><tr>\<close> of the table: the number and the six strings interpolated into it.\<close>

record display_row =
  row_index :: nat
  row_page :: string
  row_No :: string
  row_Reference_Code :: string
  row_GW :: string
  row_GH :: string
  row_Qty :: string

text \<open>
  What \<^verbatim>\<open>referenceData.innerHTML\<close> holds: nothing (the page as loaded), one of the two
  centred paragraphs that \<^verbatim>\<open>displayResults\<close> writes (in Thai: "no data found" and
  "no complete GLASS data found"), or the table with its rows.
\<close>

datatype html = NoContent | NoDataParagraph | NoCompleteGlassParagraph | DataTable "display_row list"

text \<open>
  What \<^verbatim>\<open>errorMessage.textContent\<close> holds: a value of the response, or one of the two
  fixed Thai sentences of the submit handler ("an unknown error occurred", "an error
  occurred while contacting the server").
\<close>

datatype message_text = ValueText jsval | UnknownErrorText | ServerContactErrorText

record ui =
  loading_display :: string
  errorMessage_text :: message_text
  errorMessage_display :: string
  successMessage_text :: message_text
  successMessage_display :: string
  resultsSection_display :: string
  downloadSection_display :: string
  processBtn_disabled :: bool
  productInfo_innerHTML :: string
  productInfo_display :: string
  summarySection_display :: string
  referenceData_innerHTML :: html
  totalGlass_text :: jsval
  totalRecords_text :: jsval
  totalReferences_text :: jsval
  fileInput_files_length :: nat

section \<open>displayResults\<close>

definition glass_refKey :: "glass_entry \<Rightarrow> string" where
  "glass_refKey glass = to_string (ref_no glass) @ ''-'' @ to_string (ref_code glass)"

definition ref_refKey :: "reference_entry \<Rightarrow> string" where
  "ref_refKey ref = to_string (No ref) @ ''-'' @ to_string (Reference_Code ref)"

text \<open>\<^verbatim>\<open>glass.GW || glass.GH || glass.Qty\<close> as a condition.\<close>

definition has_measurement :: "glass_entry \<Rightarrow> bool" where
  "has_measurement glass = (truthy (GW glass) \<or> truthy (GH glass) \<or> truthy (Qty glass))"

text \<open>
  The first \<^verbatim>\<open>forEach\<close>: \<open>glassByRef\<close> is an object used as a dictionary. Every key
  contains a hyphen, so none is a property inherited from \<^verbatim>\<open>Object.prototype\<close>, and a
  map from strings is what the lookups see.
\<close>

fun group_glass :: "glass_entry list \<Rightarrow> (string \<rightharpoonup> glass_entry list) \<Rightarrow> (string \<rightharpoonup> glass_entry list)" where
  "group_glass [] glassByRef = glassByRef"
| "group_glass (glass # rest) glassByRef =
     (let refKey = glass_refKey glass;
          created = (case glassByRef refKey of None \<Rightarrow> glassByRef(refKey \<mapsto> []) | Some _ \<Rightarrow> glassByRef);
          pushed = (if has_measurement glass
                    then (case created refKey of None \<Rightarrow> created
                          | Some gs \<Rightarrow> created(refKey \<mapsto> gs @ [glass]))
                    else created)
      in group_glass rest pushed)"

definition in_referencesWithGlass :: "(string \<rightharpoonup> glass_entry list) \<Rightarrow> reference_entry \<Rightarrow> bool" where
  "in_referencesWithGlass glassByRef ref =
     (case glassByRef (ref_refKey ref) of None \<Rightarrow> False | Some gs \<Rightarrow> length gs > 0)"

record emit_state =
  tableHTML :: "display_row list"
  totalGlassCount :: int
  totalRecords :: nat
  rowIndex :: nat

definition make_row :: "nat \<Rightarrow> reference_entry \<Rightarrow> glass_entry \<Rightarrow> display_row" where
  "make_row i ref glass =
     \<lparr>row_index = i,
      row_page = to_string (page ref),
      row_No = to_string (No ref),
      row_Reference_Code = to_string (Reference_Code ref),
      row_GW = to_string (js_or (GW glass) (JStr ''-'')),
      row_GH = to_string (js_or (GH glass) (JStr ''-'')),
      row_Qty = to_string (js_or (Qty glass) (JStr ''-''))\<rparr>"

text \<open>The body of the inner \<^verbatim>\<open>forEach\<close>, for one glass entry.\<close>

definition emit_one :: "reference_entry \<Rightarrow> glass_entry \<Rightarrow> emit_state \<Rightarrow> emit_state" where
  "emit_one ref glass s =
     (if has_measurement glass
      then \<lparr>tableHTML = tableHTML s @ [make_row (rowIndex s) ref glass],
            totalGlassCount = totalGlassCount s + parseInt_or_0 (Qty glass),
            totalRecords = totalRecords s + 1,
            rowIndex = rowIndex s + 1\<rparr>
      else s)"

fun emit_glass :: "reference_entry \<Rightarrow> glass_entry list \<Rightarrow> emit_state \<Rightarrow> emit_state" where
  "emit_glass ref [] s = s"
| "emit_glass ref (glass # rest) s = emit_glass ref rest (emit_one ref glass s)"

fun emit_refs :: "(string \<rightharpoonup> glass_entry list) \<Rightarrow> reference_entry list \<Rightarrow> emit_state \<Rightarrow> emit_state" where
  "emit_refs glassByRef [] s = s"
| "emit_refs glassByRef (ref # rest) s =
     emit_refs glassByRef rest
       (case glassByRef (ref_refKey ref) of None \<Rightarrow> s | Some gs \<Rightarrow> emit_glass ref gs s)"

definition init_state :: emit_state where
  "init_state = \<lparr>tableHTML = [], totalGlassCount = 0, totalRecords = 0, rowIndex = 1\<rparr>"

definition show_no_data :: "ui \<Rightarrow> ui" where
  "show_no_data u = u\<lparr>summarySection_display := ''none'', referenceData_innerHTML := NoDataParagraph\<rparr>"

definition displayResults :: "payload \<Rightarrow> ui \<Rightarrow> ui" where
  "displayResults data u =
     (case reference_code data of
        None \<Rightarrow> show_no_data u
      | Some refs \<Rightarrow>
          if length refs > 0 then
            (let glassByRef = (case glass_data data of None \<Rightarrow> Map.empty
                               | Some gs \<Rightarrow> group_glass gs Map.empty);
                 referencesWithGlass = filter (in_referencesWithGlass glassByRef) refs
             in if length referencesWithGlass > 0 then
                  (let s = emit_refs glassByRef referencesWithGlass init_state
                   in u\<lparr>totalGlass_text := JNum (totalGlassCount s),
                        totalRecords_text := JNum (int (totalRecords s)),
                        totalReferences_text := total_references data,
                        summarySection_display := ''block'',
                        referenceData_innerHTML := DataTable (tableHTML s)\<rparr>)
                else u\<lparr>summarySection_display := ''none'',
                       referenceData_innerHTML := NoCompleteGlassParagraph\<rparr>)
          else show_no_data u)"

section \<open>The submit handler of the upload form\<close>

record result =
  success :: jsval
  message :: jsval
  error :: jsval
  data :: "payload option"










section \<open>The projection in the words of the specification\<close>

definition references :: "payload \<Rightarrow> reference_entry list" where
  "references d = (case reference_code d of None \<Rightarrow> [] | Some refs \<Rightarrow> refs)"

definition glasses :: "payload \<Rightarrow> glass_entry list" where
  "glasses d = (case glass_data d of None \<Rightarrow> [] | Some gs \<Rightarrow> gs)"

text \<open>
  The glass entries joined to a reference entry: same composite key, at least one
  measurement, in payload order.
\<close>

definition matched_glass :: "payload \<Rightarrow> reference_entry \<Rightarrow> glass_entry list" where
  "matched_glass d ref =
     filter (\<lambda>glass. glass_refKey glass = ref_refKey ref \<and> has_measurement glass) (glasses d)"

definition emitted_pairs :: "payload \<Rightarrow> (reference_entry \<times> glass_entry) list" where
  "emitted_pairs d = concat (map (\<lambda>ref. map (Pair ref) (matched_glass d ref)) (references d))"

text \<open>One row per pair, numbered densely from \<open>i\<close>.\<close>

definition number_rows :: "nat \<Rightarrow> (reference_entry \<times> glass_entry) list \<Rightarrow> display_row list" where
  "number_rows i ps = map (\<lambda>(j, ref, glass). make_row j ref glass) (enumerate i ps)"

definition qty_sum :: "(reference_entry \<times> glass_entry) list \<Rightarrow> int" where
  "qty_sum ps = sum_list (map (\<lambda>(ref, glass). parseInt_or_0 (Qty glass)) ps)"

definition table_rows :: "html \<Rightarrow> display_row list" where
  "table_rows h = (case h of DataTable rows \<Rightarrow> rows | _ \<Rightarrow> [])"


section \<open>The page as loaded\<close>

definition initial_ui :: ui where
  "initial_ui =
     \<lparr>loading_display = '''',
      errorMessage_text = ValueText (JStr ''''),
      errorMessage_display = '''',
      successMessage_text = ValueText (JStr ''''),
      successMessage_display = '''',
      resultsSection_display = '''',
      downloadSection_display = '''',
      processBtn_disabled = False,
      productInfo_innerHTML = '''',
      productInfo_display = ''none'',
      summarySection_display = ''none'',
      referenceData_innerHTML = NoContent,
      totalGlass_text = JStr ''0'',
      totalRecords_text = JStr ''0'',
      totalReferences_text = JStr ''0'',
      fileInput_files_length = 1\<rparr>"

section \<open>Example payloads\<close>

text \<open>
  Two reference entries; the first has no glass entry, the second has three under its key:
  one complete, one with no measurement, one with a numeric 0 and a non-numeric quantity.
\<close>

definition ref_1A :: reference_entry where
  "ref_1A = \<lparr>page = JNum 7, No = JNum 1, Reference_Code = JStr ''A''\<rparr>"

definition ref_2B :: reference_entry where
  "ref_2B = \<lparr>page = JNum 8, No = JNum 2, Reference_Code = JStr ''B''\<rparr>"

definition glass_1A :: glass_entry where
  "glass_1A = \<lparr>ref_no = JNum 1, ref_code = JStr ''A'', GW = JStr ''10'', GH = JStr ''20'', Qty = JStr ''3''\<rparr>"

definition glass_1A_abc :: glass_entry where
  "glass_1A_abc = \<lparr>ref_no = JNum 1, ref_code = JStr ''A'', GW = JNum 0, GH = JStr ''5'', Qty = JStr ''abc''\<rparr>"

definition glass_1A_empty :: glass_entry where
  "glass_1A_empty = \<lparr>ref_no = JNum 1, ref_code = JStr ''A'', GW = JStr '''', GH = JNull, Qty = JNum 0\<rparr>"

definition payload_two_rows :: payload where
  "payload_two_rows = \<lparr>reference_code = Some [ref_2B, ref_1A],
     glass_data = Some [glass_1A, glass_1A_empty, glass_1A_abc],
     total_references = JNum 5, product_messages = None\<rparr>"

definition payload_absent :: payload where
  "payload_absent = \<lparr>reference_code = None, glass_data = Some [glass_1A],
     total_references = JNum 0, product_messages = None\<rparr>"

definition payload_incomplete :: payload where
  "payload_incomplete = \<lparr>reference_code = Some [ref_2B, ref_1A],
     glass_data = Some [glass_1A_empty],
     total_references = JNum 2, product_messages = None\<rparr>"

definition glass_1A_zero :: glass_entry where
  "glass_1A_zero = \<lparr>ref_no = JNum 1, ref_code = JStr ''A'', GW = JStr ''10'', GH = JNum 0, Qty = JNum 0\<rparr>"





section \<open>Evaluation of the scalar operations\<close>

lemma digits10_small: "n < 10 \<Longrightarrow> digits10 n = [digit_char n]"
  by (simp add: digits10.simps)

lemma digits10_large: "\<not> n < 10 \<Longrightarrow> digits10 n = digits10 (n div 10) @ [digit_char (n mod 10)]"
  by (subst digits10.simps) simp

section \<open>The loops as list functions\<close>

lemma number_rows_Nil: "number_rows i [] = []"
  by (simp add: number_rows_def)

lemma number_rows_Cons:
  "number_rows i (p # ps) = make_row i (fst p) (snd p) # number_rows (Suc i) ps"
  by (cases p) (simp add: number_rows_def)

lemma number_rows_append:
  "number_rows i (ps @ qs) = number_rows i ps @ number_rows (i + length ps) qs"
  by (simp add: number_rows_def enumerate_append_eq)

lemma length_number_rows: "length (number_rows i ps) = length ps"
  by (simp add: number_rows_def)

lemma group_glass_lookup:
  "group_glass gs m k =
     (if \<exists>g\<in>set gs. glass_refKey g = k
      then Some ((case m k of None \<Rightarrow> [] | Some xs \<Rightarrow> xs)
                 @ filter (\<lambda>g. glass_refKey g = k \<and> has_measurement g) gs)
      else m k)"
proof (induction gs arbitrary: m)
  case Nil
  show ?case by simp
next
  case (Cons g gs)
  show ?case
    by (cases "m (glass_refKey g)"; cases "m k") (auto simp: Cons.IH Let_def)
qed

lemma emit_glass_eq:
  "emit_glass ref gs s =
     (let ps = map (Pair ref) (filter has_measurement gs) in
      \<lparr>tableHTML = tableHTML s @ number_rows (rowIndex s) ps,
       totalGlassCount = totalGlassCount s + qty_sum ps,
       totalRecords = totalRecords s + length ps,
       rowIndex = rowIndex s + length ps\<rparr>)"
proof (induction gs arbitrary: s)
  case Nil
  show ?case by (simp add: number_rows_Nil qty_sum_def)
next
  case (Cons g gs)
  show ?case
    by (simp add: Cons.IH emit_one_def Let_def number_rows_Nil number_rows_Cons qty_sum_def)
qed

lemma emit_refs_eq:
  "emit_refs m refs s =
     (let ps = concat (map (\<lambda>ref. case m (ref_refKey ref) of None \<Rightarrow> []
                             | Some gs \<Rightarrow> map (Pair ref) (filter has_measurement gs)) refs) in
      \<lparr>tableHTML = tableHTML s @ number_rows (rowIndex s) ps,
       totalGlassCount = totalGlassCount s + qty_sum ps,
       totalRecords = totalRecords s + length ps,
       rowIndex = rowIndex s + length ps\<rparr>)"
proof (induction refs arbitrary: s)
  case Nil
  show ?case by (simp add: number_rows_Nil qty_sum_def)
next
  case (Cons r refs)
  show ?case
    by (cases "m (ref_refKey r)")
       (simp_all add: Cons.IH emit_glass_eq Let_def number_rows_append qty_sum_def add.assoc)
qed

lemma grouped_lookup:
  "group_glass (glasses d) Map.empty (ref_refKey ref) = None \<Longrightarrow> matched_glass d ref = []"
  "group_glass (glasses d) Map.empty (ref_refKey ref) = Some gs \<Longrightarrow> gs = matched_glass d ref"
  by (auto simp: group_glass_lookup matched_glass_def filter_empty_conv split: if_splits)

lemma glassByRef_eq:
  "(case glass_data d of None \<Rightarrow> Map.empty | Some gs \<Rightarrow> group_glass gs Map.empty)
     = group_glass (glasses d) Map.empty"
  by (simp add: glasses_def split: option.splits)

lemma filter_matched: "filter has_measurement (matched_glass d ref) = matched_glass d ref"
  by (simp add: matched_glass_def conj_commute)

lemma block_eq:
  "(case group_glass (glasses d) Map.empty (ref_refKey ref) of None \<Rightarrow> []
    | Some gs \<Rightarrow> map (Pair ref) (filter has_measurement gs))
     = map (Pair ref) (matched_glass d ref)"
  by (auto simp: filter_matched dest: grouped_lookup split: option.splits)

lemma survivor_iff:
  "in_referencesWithGlass (group_glass (glasses d) Map.empty)
     = (\<lambda>ref. matched_glass d ref \<noteq> [])"
  by (rule ext) (auto simp: in_referencesWithGlass_def dest: grouped_lookup split: option.splits)

lemma concat_map_filter:
  "(\<And>x. x \<in> set xs \<Longrightarrow> \<not> P x \<Longrightarrow> f x = []) \<Longrightarrow>
   concat (map f (filter P xs)) = concat (map f xs)"
  by (induction xs) auto

lemma survivors_pairs:
  "concat (map (\<lambda>ref. case group_glass (glasses d) Map.empty (ref_refKey ref) of None \<Rightarrow> []
                           | Some gs \<Rightarrow> map (Pair ref) (filter has_measurement gs))
            (filter (in_referencesWithGlass (group_glass (glasses d) Map.empty)) refs))
     = concat (map (\<lambda>ref. map (Pair ref) (matched_glass d ref)) refs)"
proof -
  have "concat (map (\<lambda>ref. map (Pair ref) (matched_glass d ref))
                 (filter (\<lambda>ref. matched_glass d ref \<noteq> []) refs))
        = concat (map (\<lambda>ref. map (Pair ref) (matched_glass d ref)) refs)"
    by (rule concat_map_filter) simp
  then show ?thesis by (simp add: block_eq survivor_iff)
qed

lemma survivors_empty:
  "(filter (in_referencesWithGlass (group_glass (glasses d) Map.empty)) (references d) = [])
     = (emitted_pairs d = [])"
  by (auto simp: survivor_iff emitted_pairs_def filter_empty_conv)

text \<open>
  \<^verbatim>\<open>displayResults\<close> in closed form: which of its three branches runs, and what the
  two loops of the table branch compute.
\<close>

lemma displayResults_eq:
  "displayResults d u =
     (if references d = [] then show_no_data u
      else if emitted_pairs d = []
        then u\<lparr>summarySection_display := ''none'',
               referenceData_innerHTML := NoCompleteGlassParagraph\<rparr>
        else u\<lparr>totalGlass_text := JNum (qty_sum (emitted_pairs d)),
               totalRecords_text := JNum (int (length (emitted_pairs d))),
               totalReferences_text := total_references d,
               summarySection_display := ''block'',
               referenceData_innerHTML := DataTable (number_rows 1 (emitted_pairs d))\<rparr>)"
proof (cases "reference_code d")
  case None
  then show ?thesis by (simp add: displayResults_def references_def)
next
  case (Some refs)
  then have r: "references d = refs" by (simp add: references_def)
  show ?thesis
  proof (cases "refs = []")
    case True
    with Some r show ?thesis by (simp add: displayResults_def)
  next
    case False
    have e: "emit_refs (group_glass (glasses d) Map.empty)
               (filter (in_referencesWithGlass (group_glass (glasses d) Map.empty)) refs) init_state
             = \<lparr>tableHTML = number_rows 1 (emitted_pairs d),
                totalGlassCount = qty_sum (emitted_pairs d),
                totalRecords = length (emitted_pairs d),
                rowIndex = 1 + length (emitted_pairs d)\<rparr>"
      by (simp add: emit_refs_eq Let_def survivors_pairs init_state_def emitted_pairs_def r)
    from Some False r show ?thesis
      using survivors_empty [of d]
      by (simp add: displayResults_def glassByRef_eq Let_def e)
  qed
qed

section \<open>Evaluation of the example\<close>

lemmas scalar_eval = digits10_small digits10_large digit_char_def js_or_def
  parseInt_def parseInt_or_0_def is_ws_def radix_digit_def digit_val_def digits_value_def Let_def

lemma keys_eval:
  "ref_refKey ref_1A = ''1-A''" "ref_refKey ref_2B = ''2-B''"
  "glass_refKey glass_1A = ''1-A''" "glass_refKey glass_1A_abc = ''1-A''" "glass_refKey glass_1A_empty = ''1-A''"
  by (simp_all add: ref_refKey_def glass_refKey_def ref_1A_def ref_2B_def glass_1A_def glass_1A_abc_def glass_1A_empty_def scalar_eval)

lemma meas_eval:
  "has_measurement glass_1A" "has_measurement glass_1A_abc" "\<not> has_measurement glass_1A_empty"
  by (simp_all add: has_measurement_def glass_1A_def glass_1A_abc_def glass_1A_empty_def)

lemma pairs_eval: "emitted_pairs payload_two_rows = [(ref_1A, glass_1A), (ref_1A, glass_1A_abc)]"
  by (simp add: emitted_pairs_def matched_glass_def references_def glasses_def payload_two_rows_def keys_eval meas_eval)

lemma refs_eval: "references payload_two_rows = [ref_2B, ref_1A]"
  by (simp add: references_def payload_two_rows_def)

lemma rows_eval: "number_rows 1 [(ref_1A, glass_1A), (ref_1A, glass_1A_abc)] =
  [\<lparr>row_index = 1, row_page = ''7'', row_No = ''1'', row_Reference_Code = ''A'', row_GW = ''10'', row_GH = ''20'', row_Qty = ''3''\<rparr>,
   \<lparr>row_index = 2, row_page = ''7'', row_No = ''1'', row_Reference_Code = ''A'', row_GW = ''-'', row_GH = ''5'', row_Qty = ''abc''\<rparr>]"
  by (simp add: number_rows_Cons number_rows_Nil make_row_def ref_1A_def glass_1A_def glass_1A_abc_def scalar_eval)


lemma row_index_number_rows: "map row_index (number_rows i ps) = [i..<i + length ps]"
proof -
  have "map row_index (number_rows i ps) = map fst (enumerate i ps)"
    by (simp add: number_rows_def make_row_def split_def o_def)
  then show ?thesis by (simp add: map_fst_enumerate)
qed

lemma displayResults_table:
  assumes "referenceData_innerHTML (displayResults d u) = DataTable rows"
  shows "rows = number_rows 1 (emitted_pairs d)"
    and "totalGlass_text (displayResults d u) = JNum (qty_sum (emitted_pairs d))"
    and "totalRecords_text (displayResults d u) = JNum (int (length (emitted_pairs d)))"
    and "totalReferences_text (displayResults d u) = total_references d"
    and "summarySection_display (displayResults d u) = ''block''"
  using assms by (simp_all add: displayResults_eq show_no_data_def split: if_splits)

lemma table_rows_displayResults:
  "table_rows (referenceData_innerHTML (displayResults d u)) = number_rows 1 (emitted_pairs d)"
proof (cases "emitted_pairs d = []")
  case True
  then show ?thesis
    by (simp add: displayResults_eq show_no_data_def table_rows_def number_rows_Nil)
next
  case False
  then have "references d \<noteq> []" by (auto simp: emitted_pairs_def)
  with False show ?thesis by (simp add: displayResults_eq table_rows_def)
qed

lemma displayResults_two_rows:
  "referenceData_innerHTML (displayResults payload_two_rows u) =
     DataTable
       [\<lparr>row_index = 1, row_page = ''7'', row_No = ''1'', row_Reference_Code = ''A'',
         row_GW = ''10'', row_GH = ''20'', row_Qty = ''3''\<rparr>,
        \<lparr>row_index = 2, row_page = ''7'', row_No = ''1'', row_Reference_Code = ''A'',
         row_GW = ''-'', row_GH = ''5'', row_Qty = ''abc''\<rparr>]"
  using rows_eval by (simp add: displayResults_eq pairs_eval refs_eval)

subsection \<open>Parsing a quantity\<close>


lemma parseInt_or_0_falsy: "\<not> truthy v \<Longrightarrow> parseInt_or_0 v = 0"
  by (cases v) (simp_all add: scalar_eval)







lemma total_eval: "total_references payload_two_rows = JNum 5"
  by (simp add: payload_two_rows_def)

subsection \<open>Single pairs, cells and the submit handler\<close>

lemma one_pair:
  "references d = [ref] \<Longrightarrow> glasses d = [glass] \<Longrightarrow> glass_refKey glass = ref_refKey ref \<Longrightarrow>
   has_measurement glass \<Longrightarrow> emitted_pairs d = [(ref, glass)]"
  by (simp add: emitted_pairs_def matched_glass_def)

lemma no_pairs:
  assumes "\<forall>ref\<in>set (references d). \<forall>glass\<in>set (glasses d).
             glass_refKey glass = ref_refKey ref \<longrightarrow> \<not> has_measurement glass"
  shows "emitted_pairs d = []"
  using assms by (auto simp: emitted_pairs_def matched_glass_def filter_empty_conv)


lemma cells:
  "row_GW (make_row i ref glass) = (if truthy (GW glass) then to_string (GW glass) else ''-'')"
  "row_GH (make_row i ref glass) = (if truthy (GH glass) then to_string (GH glass) else ''-'')"
  "row_Qty (make_row i ref glass) = (if truthy (Qty glass) then to_string (Qty glass) else ''-'')"
  by (simp_all add: make_row_def js_or_def)


lemma remove_unmeasured:
  assumes "\<not> has_measurement glass" and "glass_data d = Some (xs @ glass # ys)"
  shows "displayResults d u = displayResults (d\<lparr>glass_data := Some (xs @ ys)\<rparr>) u"
proof -
  let ?d = "d\<lparr>glass_data := Some (xs @ ys)\<rparr>"
  have r: "references ?d = references d" by (simp add: references_def)
  have "matched_glass ?d ref = matched_glass d ref" for ref
    using assms by (simp add: matched_glass_def glasses_def)
  then have p: "emitted_pairs ?d = emitted_pairs d" by (simp add: emitted_pairs_def r)
  show ?thesis by (simp add: displayResults_eq [of d] displayResults_eq [of ?d] r p)
qed








section \<open>The claims\<close>

text \<open>
  C1. The rows of the output are the rows of the reference entries, block after block in
  payload order, and the block of a reference entry is not empty if and only if some
  glass entry has the same composite key (\<^verbatim>\<open>ref_no + "-" + ref_code\<close> equal to
  \<^verbatim>\<open>No + "-" + Reference_Code\<close>) and at least one non-empty measurement among \<open>GW\<close>,
  \<open>GH\<close> and \<open>Qty\<close>. Non-empty is the test of the code, \<open>truthy\<close>. A payload that shows a
  placeholder has no rows.
\<close>

theorem C1_reference_rows_iff_matching_glass:
  "table_rows (referenceData_innerHTML (displayResults d u))
     = number_rows 1 (concat (map (\<lambda>ref. map (Pair ref) (matched_glass d ref)) (references d)))
   \<and> (\<forall>ref. (map (Pair ref) (matched_glass d ref) \<noteq> []) =
         (\<exists>glass\<in>set (glasses d). glass_refKey glass = ref_refKey ref
            \<and> (truthy (GW glass) \<or> truthy (GH glass) \<or> truthy (Qty glass))))"
proof -
  have "table_rows (referenceData_innerHTML (displayResults d u))
          = number_rows 1 (concat (map (\<lambda>ref. map (Pair ref) (matched_glass d ref)) (references d)))"
    using table_rows_displayResults [of d u] by (simp add: emitted_pairs_def)
  moreover have "(matched_glass d ref \<noteq> []) =
         (\<exists>glass\<in>set (glasses d). glass_refKey glass = ref_refKey ref
            \<and> (truthy (GW glass) \<or> truthy (GH glass) \<or> truthy (Qty glass)))" for ref
    by (auto simp: matched_glass_def filter_empty_conv has_measurement_def)
  ultimately show ?thesis by simp
qed

theorem C1_witness:
  "table_rows (referenceData_innerHTML (displayResults payload_two_rows initial_ui)) =
     [\<lparr>row_index = 1, row_page = ''7'', row_No = ''1'', row_Reference_Code = ''A'',
       row_GW = ''10'', row_GH = ''20'', row_Qty = ''3''\<rparr>,
      \<lparr>row_index = 2, row_page = ''7'', row_No = ''1'', row_Reference_Code = ''A'',
       row_GW = ''-'', row_GH = ''5'', row_Qty = ''abc''\<rparr>]
   \<and> (\<exists>glass\<in>set (glasses payload_two_rows). glass_refKey glass = ref_refKey ref_1A
          \<and> (truthy (GW glass) \<or> truthy (GH glass) \<or> truthy (Qty glass)))
   \<and> \<not> (\<exists>glass\<in>set (glasses payload_two_rows). glass_refKey glass = ref_refKey ref_2B
          \<and> (truthy (GW glass) \<or> truthy (GH glass) \<or> truthy (Qty glass)))"
proof -
  have p: "concat (map (\<lambda>ref. map (Pair ref) (matched_glass payload_two_rows ref))
             (references payload_two_rows)) = [(ref_1A, glass_1A), (ref_1A, glass_1A_abc)]"
    using pairs_eval by (simp add: emitted_pairs_def)
  have m: "matched_glass payload_two_rows ref_1A \<noteq> []" "matched_glass payload_two_rows ref_2B = []"
    by (simp_all add: matched_glass_def glasses_def payload_two_rows_def keys_eval meas_eval)
  note c = C1_reference_rows_iff_matching_glass [of payload_two_rows initial_ui]
  from c p rows_eval have 1: "table_rows (referenceData_innerHTML (displayResults payload_two_rows initial_ui)) =
     [\<lparr>row_index = 1, row_page = ''7'', row_No = ''1'', row_Reference_Code = ''A'',
       row_GW = ''10'', row_GH = ''20'', row_Qty = ''3''\<rparr>,
      \<lparr>row_index = 2, row_page = ''7'', row_No = ''1'', row_Reference_Code = ''A'',
       row_GW = ''-'', row_GH = ''5'', row_Qty = ''abc''\<rparr>]"
    by simp
  from c have a: "(map (Pair ref) (matched_glass payload_two_rows ref) \<noteq> []) =
         (\<exists>glass\<in>set (glasses payload_two_rows). glass_refKey glass = ref_refKey ref
            \<and> (truthy (GW glass) \<or> truthy (GH glass) \<or> truthy (Qty glass)))" for ref
    by blast
  from a [of ref_1A] a [of ref_2B] m 1 show ?thesis by simp
qed

text \<open>
  C2. When the payload yields a table, the rows carry the indices 1, 2, ... up to
  \<open>totalRecords\<close> in emission order; the rows are the pairs of a reference entry and one
  of its matched glass entries, numbered from 1, so that a glass entry without a
  measurement takes no index; and the inner loop gives every glass entry of one reference
  entry its own row, with that reference's page, \<open>No\<close> and \<open>Reference_Code\<close> and with
  consecutive indices.
\<close>

theorem C2_dense_row_indices:
  assumes "referenceData_innerHTML (displayResults d u) = DataTable rows"
  shows "map row_index rows = [1..<Suc (length rows)]
       \<and> totalRecords_text (displayResults d u) = JNum (int (length rows))
       \<and> rows = map (\<lambda>(i, ref, glass). make_row i ref glass)
                 (enumerate 1 (concat (map (\<lambda>ref. map (Pair ref) (matched_glass d ref)) (references d))))
       \<and> (\<forall>ref gs s. tableHTML (emit_glass ref gs s) =
            tableHTML s @ map (\<lambda>(i, glass). make_row i ref glass)
                            (enumerate (rowIndex s) (filter has_measurement gs)))"
proof -
  note t = displayResults_table [OF assms]
  have 1: "map row_index rows = [1..<Suc (length rows)]"
    by (simp add: t(1) row_index_number_rows length_number_rows)
  have 2: "totalRecords_text (displayResults d u) = JNum (int (length rows))"
    by (simp add: t(1) t(3) length_number_rows)
  have 3: "rows = map (\<lambda>(i, ref, glass). make_row i ref glass)
                 (enumerate 1 (concat (map (\<lambda>ref. map (Pair ref) (matched_glass d ref)) (references d))))"
    using t(1) by (simp add: number_rows_def emitted_pairs_def)
  have e: "map (\<lambda>(j, ref, glass). make_row j ref glass) (enumerate i (map (Pair r) gs))
         = map (\<lambda>(i, glass). make_row i r glass) (enumerate i gs)" for i r gs
    by (induction gs arbitrary: i) simp_all
  have 4: "tableHTML (emit_glass ref gs s) =
            tableHTML s @ map (\<lambda>(i, glass). make_row i ref glass)
                            (enumerate (rowIndex s) (filter has_measurement gs))" for ref gs s
    by (simp add: emit_glass_eq Let_def number_rows_def e)
  from 1 2 3 4 show ?thesis by blast
qed

theorem C2_witness:
  "referenceData_innerHTML (displayResults payload_two_rows initial_ui) =
     DataTable
       [\<lparr>row_index = 1, row_page = ''7'', row_No = ''1'', row_Reference_Code = ''A'',
         row_GW = ''10'', row_GH = ''20'', row_Qty = ''3''\<rparr>,
        \<lparr>row_index = 2, row_page = ''7'', row_No = ''1'', row_Reference_Code = ''A'',
         row_GW = ''-'', row_GH = ''5'', row_Qty = ''abc''\<rparr>]
   \<and> totalRecords_text (displayResults payload_two_rows initial_ui) = JNum 2"
  using C2_dense_row_indices [OF displayResults_two_rows [of initial_ui]]
    displayResults_two_rows [of initial_ui]
  by simp



text \<open>
  C4. When the payload yields a table, the value written to \<open>totalReferences\<close> is the
  payload's \<open>total_references\<close>, whatever the local counts are. In the example it is 5,
  with 2 rows and 2 reference entries.
\<close>

theorem C4_total_references_verbatim:
  "referenceData_innerHTML (displayResults d u) = DataTable rows \<Longrightarrow>
   totalReferences_text (displayResults d u) = total_references d"
  by (rule displayResults_table(4))

theorem C4_witness:
  "referenceData_innerHTML (displayResults payload_two_rows initial_ui) =
     DataTable
       [\<lparr>row_index = 1, row_page = ''7'', row_No = ''1'', row_Reference_Code = ''A'',
         row_GW = ''10'', row_GH = ''20'', row_Qty = ''3''\<rparr>,
        \<lparr>row_index = 2, row_page = ''7'', row_No = ''1'', row_Reference_Code = ''A'',
         row_GW = ''-'', row_GH = ''5'', row_Qty = ''abc''\<rparr>]
   \<and> totalReferences_text (displayResults payload_two_rows initial_ui) = JNum 5
   \<and> totalRecords_text (displayResults payload_two_rows initial_ui) = JNum 2
   \<and> length (references payload_two_rows) = 2"
  using C4_total_references_verbatim [OF displayResults_two_rows [of initial_ui]]
    displayResults_two_rows [of initial_ui]
    displayResults_table(3) [OF displayResults_two_rows [of initial_ui]]
    total_eval
  by (simp add: pairs_eval refs_eval)

text \<open>
  C5. One reference entry with \<open>No\<close> 1 and \<open>Reference_Code\<close> "A", whatever its page, and
  one glass entry \<^verbatim>\<open>{ref_no: 1, ref_code: "A", GW: "10", GH: "20", Qty: "3"}\<close>: the page
  shows a table of exactly one row, the row has index 1, \<open>totalGlassCount\<close> is 3 and
  \<open>totalRecords\<close> is 1.
\<close>

theorem C5_one_reference_one_glass:
  "displayResults
     \<lparr>reference_code = Some [\<lparr>page = pg, No = JNum 1, Reference_Code = JStr ''A''\<rparr>],
      glass_data = Some [\<lparr>ref_no = JNum 1, ref_code = JStr ''A'',
                          GW = JStr ''10'', GH = JStr ''20'', Qty = JStr ''3''\<rparr>],
      total_references = tr, product_messages = pm\<rparr> u
   = u\<lparr>totalGlass_text := JNum 3,
       totalRecords_text := JNum 1,
       totalReferences_text := tr,
       summarySection_display := ''block'',
       referenceData_innerHTML :=
         DataTable [\<lparr>row_index = 1, row_page = to_string pg, row_No = ''1'',
                     row_Reference_Code = ''A'', row_GW = ''10'', row_GH = ''20'',
                     row_Qty = ''3''\<rparr>]\<rparr>"
proof -
  define ref where "ref = \<lparr>page = pg, No = JNum 1, Reference_Code = JStr ''A''\<rparr>"
  define glass where "glass = \<lparr>ref_no = JNum 1, ref_code = JStr ''A'',
                          GW = JStr ''10'', GH = JStr ''20'', Qty = JStr ''3''\<rparr>"
  define d where "d = \<lparr>reference_code = Some [ref], glass_data = Some [glass],
      total_references = tr, product_messages = pm\<rparr>"
  have k: "glass_refKey glass = ref_refKey ref"
    by (simp add: glass_refKey_def ref_refKey_def glass_def ref_def)
  have m: "has_measurement glass"
    by (simp add: has_measurement_def glass_def)
  have p: "emitted_pairs d = [(ref, glass)]"
    by (rule one_pair) (simp_all add: d_def references_def glasses_def k m)
  have r: "references d \<noteq> []" by (simp add: d_def references_def)
  have q: "qty_sum [(ref, glass)] = 3"
    by (simp add: qty_sum_def glass_def scalar_eval)
  have n: "number_rows 1 [(ref, glass)] =
      [\<lparr>row_index = 1, row_page = to_string pg, row_No = ''1'',
                     row_Reference_Code = ''A'', row_GW = ''10'', row_GH = ''20'',
                     row_Qty = ''3''\<rparr>]"
    by (simp add: number_rows_Cons number_rows_Nil make_row_def glass_def ref_def scalar_eval)
  have t: "total_references d = tr" by (simp add: d_def)
  have "displayResults d u = u\<lparr>totalGlass_text := JNum 3,
       totalRecords_text := JNum 1,
       totalReferences_text := tr,
       summarySection_display := ''block'',
       referenceData_innerHTML :=
         DataTable [\<lparr>row_index = 1, row_page = to_string pg, row_No = ''1'',
                     row_Reference_Code = ''A'', row_GW = ''10'', row_GH = ''20'',
                     row_Qty = ''3''\<rparr>]\<rparr>"
    using n by (simp add: displayResults_eq p r q t)
  then show ?thesis by (simp add: d_def ref_def glass_def)
qed

text \<open>
  C6. Two empty outcomes, both with the summary hidden. A payload whose \<open>reference_code\<close>
  is absent or empty shows the "no data" paragraph. A payload that has reference entries,
  all failing the filter because every glass entry under their keys has no measurement,
  shows the other paragraph, "no complete GLASS data".
\<close>

theorem C6_two_placeholders:
  "(reference_code d = None \<or> reference_code d = Some [] \<longrightarrow>
      referenceData_innerHTML (displayResults d u) = NoDataParagraph
      \<and> summarySection_display (displayResults d u) = ''none'')
   \<and> (\<forall>refs. reference_code d = Some refs \<and> refs \<noteq> []
         \<and> (\<forall>ref\<in>set refs. \<forall>glass\<in>set (glasses d).
               glass_refKey glass = ref_refKey ref \<longrightarrow>
               \<not> truthy (GW glass) \<and> \<not> truthy (GH glass) \<and> \<not> truthy (Qty glass)) \<longrightarrow>
      referenceData_innerHTML (displayResults d u) = NoCompleteGlassParagraph
      \<and> summarySection_display (displayResults d u) = ''none'')
   \<and> NoDataParagraph \<noteq> NoCompleteGlassParagraph"
proof -
  have 1: "referenceData_innerHTML (displayResults d u) = NoDataParagraph
      \<and> summarySection_display (displayResults d u) = ''none''"
    if "reference_code d = None \<or> reference_code d = Some []"
  proof -
    from that have "references d = []" by (auto simp: references_def)
    then show ?thesis by (simp add: displayResults_eq show_no_data_def)
  qed
  have 2: "referenceData_innerHTML (displayResults d u) = NoCompleteGlassParagraph
      \<and> summarySection_display (displayResults d u) = ''none''"
    if r: "reference_code d = Some refs" and n: "refs \<noteq> []"
      and a: "\<forall>ref\<in>set refs. \<forall>glass\<in>set (glasses d).
               glass_refKey glass = ref_refKey ref \<longrightarrow>
               \<not> truthy (GW glass) \<and> \<not> truthy (GH glass) \<and> \<not> truthy (Qty glass)"
    for refs
  proof -
    from r have rs: "references d = refs" by (simp add: references_def)
    from a have "emitted_pairs d = []"
      by (intro no_pairs) (simp add: rs has_measurement_def)
    with rs n show ?thesis by (simp add: displayResults_eq)
  qed
  from 1 2 show ?thesis by blast
qed

theorem C6_witness:
  "reference_code payload_absent = None
   \<and> referenceData_innerHTML (displayResults payload_absent initial_ui) = NoDataParagraph
   \<and> summarySection_display (displayResults payload_absent initial_ui) = ''none''
   \<and> reference_code payload_incomplete = Some [ref_2B, ref_1A]
   \<and> glasses payload_incomplete = [glass_1A_empty]
   \<and> \<not> truthy (GW glass_1A_empty) \<and> \<not> truthy (GH glass_1A_empty) \<and> \<not> truthy (Qty glass_1A_empty)
   \<and> referenceData_innerHTML (displayResults payload_incomplete initial_ui) = NoCompleteGlassParagraph
   \<and> summarySection_display (displayResults payload_incomplete initial_ui) = ''none''"
proof -
  have a: "reference_code payload_absent = None" by (simp add: payload_absent_def)
  have r: "reference_code payload_incomplete = Some [ref_2B, ref_1A]"
    by (simp add: payload_incomplete_def)
  have g: "glasses payload_incomplete = [glass_1A_empty]"
    by (simp add: payload_incomplete_def glasses_def)
  have e: "\<not> truthy (GW glass_1A_empty) \<and> \<not> truthy (GH glass_1A_empty) \<and> \<not> truthy (Qty glass_1A_empty)"
    by (simp add: glass_1A_empty_def)
  from C6_two_placeholders [of payload_absent initial_ui] a
  have 1: "referenceData_innerHTML (displayResults payload_absent initial_ui) = NoDataParagraph
   \<and> summarySection_display (displayResults payload_absent initial_ui) = ''none''"
    by blast
  have h: "\<forall>ref\<in>set [ref_2B, ref_1A]. \<forall>glass\<in>set (glasses payload_incomplete).
               glass_refKey glass = ref_refKey ref \<longrightarrow>
               \<not> truthy (GW glass) \<and> \<not> truthy (GH glass) \<and> \<not> truthy (Qty glass)"
    using e by (simp add: g)
  from C6_two_placeholders [of payload_incomplete initial_ui] r h
  have 2: "referenceData_innerHTML (displayResults payload_incomplete initial_ui) = NoCompleteGlassParagraph
      \<and> summarySection_display (displayResults payload_incomplete initial_ui) = ''none''"
    by blast
  from a r g e 1 2 show ?thesis by blast
qed






text \<open>
  C9. The join compares the concatenated keys: the reference entry with \<open>No\<close> "1-2" and
  \<open>Reference_Code\<close> "3" and the glass entry with \<open>ref_no\<close> "1" and \<open>ref_code\<close> "2-3"
  differ in both fields, share the key "1-2-3", and the glass entry is emitted under that
  reference entry.
\<close>

theorem C9_separator_in_field_collides:
  "displayResults
     \<lparr>reference_code = Some [\<lparr>page = pg, No = JStr ''1-2'', Reference_Code = JStr ''3''\<rparr>],
      glass_data = Some [\<lparr>ref_no = JStr ''1'', ref_code = JStr ''2-3'',
                          GW = JStr ''10'', GH = JStr ''20'', Qty = JStr ''3''\<rparr>],
      total_references = tr, product_messages = pm\<rparr> u
   = u\<lparr>totalGlass_text := JNum 3,
       totalRecords_text := JNum 1,
       totalReferences_text := tr,
       summarySection_display := ''block'',
       referenceData_innerHTML :=
         DataTable [\<lparr>row_index = 1, row_page = to_string pg, row_No = ''1-2'',
                     row_Reference_Code = ''3'', row_GW = ''10'', row_GH = ''20'',
                     row_Qty = ''3''\<rparr>]\<rparr>
   \<and> JStr ''1'' \<noteq> JStr ''1-2'' \<and> JStr ''2-3'' \<noteq> JStr ''3''
   \<and> to_string (JStr ''1'') @ ''-'' @ to_string (JStr ''2-3'')
       = to_string (JStr ''1-2'') @ ''-'' @ to_string (JStr ''3'')"
proof -
  define ref where "ref = \<lparr>page = pg, No = JStr ''1-2'', Reference_Code = JStr ''3''\<rparr>"
  define glass where "glass = \<lparr>ref_no = JStr ''1'', ref_code = JStr ''2-3'',
                          GW = JStr ''10'', GH = JStr ''20'', Qty = JStr ''3''\<rparr>"
  define d where "d = \<lparr>reference_code = Some [ref], glass_data = Some [glass],
      total_references = tr, product_messages = pm\<rparr>"
  have k: "glass_refKey glass = ref_refKey ref"
    by (simp add: glass_refKey_def ref_refKey_def glass_def ref_def)
  have m: "has_measurement glass"
    by (simp add: has_measurement_def glass_def)
  have p: "emitted_pairs d = [(ref, glass)]"
    by (rule one_pair) (simp_all add: d_def references_def glasses_def k m)
  have r: "references d \<noteq> []" by (simp add: d_def references_def)
  have q: "qty_sum [(ref, glass)] = 3"
    by (simp add: qty_sum_def glass_def scalar_eval)
  have n: "number_rows 1 [(ref, glass)] =
      [\<lparr>row_index = 1, row_page = to_string pg, row_No = ''1-2'',
                     row_Reference_Code = ''3'', row_GW = ''10'', row_GH = ''20'',
                     row_Qty = ''3''\<rparr>]"
    by (simp add: number_rows_Cons number_rows_Nil make_row_def glass_def ref_def scalar_eval)
  have t: "total_references d = tr" by (simp add: d_def)
  have "displayResults d u = u\<lparr>totalGlass_text := JNum 3,
       totalRecords_text := JNum 1,
       totalReferences_text := tr,
       summarySection_display := ''block'',
       referenceData_innerHTML :=
         DataTable [\<lparr>row_index = 1, row_page = to_string pg, row_No = ''1-2'',
                     row_Reference_Code = ''3'', row_GW = ''10'', row_GH = ''20'',
                     row_Qty = ''3''\<rparr>]\<rparr>"
    using n by (simp add: displayResults_eq p r q t)
  then show ?thesis by (simp add: d_def ref_def glass_def)
qed

text \<open>
  C10. The measurement test is truthiness. A glass entry whose \<open>GW\<close>, \<open>GH\<close> and \<open>Qty\<close>
  are each absent, the empty string, \<open>null\<close> or the number 0 has no measurement, the loop
  body leaves the state as it is, and the page is the one of the payload without that
  entry. On a row, a measurement that is the number 0 is shown as the dash, and a \<open>Qty\<close>
  that is the number 0 adds 0 to \<open>totalGlassCount\<close>.
\<close>

theorem C10_measurement_test_is_truthiness:
  "(GW glass \<in> {JUndefined, JStr '''', JNull, JNum 0}
      \<and> GH glass \<in> {JUndefined, JStr '''', JNull, JNum 0}
      \<and> Qty glass \<in> {JUndefined, JStr '''', JNull, JNum 0} \<longrightarrow>
        \<not> has_measurement glass
      \<and> emit_one ref glass s = s
      \<and> (\<forall>xs ys. glass_data d = Some (xs @ glass # ys) \<longrightarrow>
            displayResults d u = displayResults (d\<lparr>glass_data := Some (xs @ ys)\<rparr>) u))
   \<and> (GW glass = JNum 0 \<longrightarrow> row_GW (make_row i ref glass) = ''-'')
   \<and> (GH glass = JNum 0 \<longrightarrow> row_GH (make_row i ref glass) = ''-'')
   \<and> (Qty glass = JNum 0 \<longrightarrow>
        row_Qty (make_row i ref glass) = ''-''
      \<and> parseInt_or_0 (Qty glass) = 0
      \<and> totalGlassCount (emit_one ref glass s) = totalGlassCount s)"
proof -
  have 1: "\<not> has_measurement glass
      \<and> emit_one ref glass s = s
      \<and> (\<forall>xs ys. glass_data d = Some (xs @ glass # ys) \<longrightarrow>
            displayResults d u = displayResults (d\<lparr>glass_data := Some (xs @ ys)\<rparr>) u)"
    if f: "GW glass \<in> {JUndefined, JStr '''', JNull, JNum 0}
      \<and> GH glass \<in> {JUndefined, JStr '''', JNull, JNum 0}
      \<and> Qty glass \<in> {JUndefined, JStr '''', JNull, JNum 0}"
  proof -
    from f have n: "\<not> has_measurement glass" by (auto simp: has_measurement_def)
    then have "emit_one ref glass s = s" by (simp add: emit_one_def)
    with n remove_unmeasured [OF n] show ?thesis by blast
  qed
  have 2: "row_GW (make_row i ref glass) = ''-''" if "GW glass = JNum 0"
    using that by (simp add: cells)
  have 3: "row_GH (make_row i ref glass) = ''-''" if "GH glass = JNum 0"
    using that by (simp add: cells)
  have 4: "row_Qty (make_row i ref glass) = ''-''
      \<and> parseInt_or_0 (Qty glass) = 0
      \<and> totalGlassCount (emit_one ref glass s) = totalGlassCount s" if "Qty glass = JNum 0"
    using that by (simp add: cells parseInt_or_0_falsy emit_one_def)
  from 1 2 3 4 show ?thesis by blast
qed

theorem C10_witness:
  "GW glass_1A_empty = JStr '''' \<and> GH glass_1A_empty = JNull \<and> Qty glass_1A_empty = JNum 0
   \<and> glass_data payload_two_rows = Some ([glass_1A] @ glass_1A_empty # [glass_1A_abc])
   \<and> displayResults payload_two_rows initial_ui
       = displayResults (payload_two_rows\<lparr>glass_data := Some ([glass_1A] @ [glass_1A_abc])\<rparr>) initial_ui
   \<and> emit_one ref_1A glass_1A_empty init_state = init_state
   \<and> GH glass_1A_zero = JNum 0 \<and> Qty glass_1A_zero = JNum 0
   \<and> has_measurement glass_1A_zero
   \<and> row_GH (make_row 1 ref_1A glass_1A_zero) = ''-''
   \<and> row_Qty (make_row 1 ref_1A glass_1A_zero) = ''-''
   \<and> totalGlassCount (emit_one ref_1A glass_1A_zero init_state) = totalGlassCount init_state
   \<and> GW glass_1A_abc = JNum 0
   \<and> row_GW (make_row 2 ref_1A glass_1A_abc) = ''-''"
proof -
  have e: "GW glass_1A_empty = JStr ''''" "GH glass_1A_empty = JNull" "Qty glass_1A_empty = JNum 0"
    by (simp_all add: glass_1A_empty_def)
  have g: "glass_data payload_two_rows = Some ([glass_1A] @ glass_1A_empty # [glass_1A_abc])"
    by (simp add: payload_two_rows_def)
  have z: "GH glass_1A_zero = JNum 0" "Qty glass_1A_zero = JNum 0" "has_measurement glass_1A_zero"
    by (simp_all add: glass_1A_zero_def has_measurement_def)
  have a: "GW glass_1A_abc = JNum 0" by (simp add: glass_1A_abc_def)
  note c1 = C10_measurement_test_is_truthiness [of glass_1A_empty ref_1A init_state payload_two_rows initial_ui 1]
  note c2 = C10_measurement_test_is_truthiness [of glass_1A_zero ref_1A init_state payload_two_rows initial_ui 1]
  note c3 = C10_measurement_test_is_truthiness [of glass_1A_abc ref_1A init_state payload_two_rows initial_ui 2]
  from c1 e have 1: "emit_one ref_1A glass_1A_empty init_state = init_state
      \<and> (\<forall>xs ys. glass_data payload_two_rows = Some (xs @ glass_1A_empty # ys) \<longrightarrow>
            displayResults payload_two_rows initial_ui
              = displayResults (payload_two_rows\<lparr>glass_data := Some (xs @ ys)\<rparr>) initial_ui)"
    by simp
  with g have 2: "displayResults payload_two_rows initial_ui
       = displayResults (payload_two_rows\<lparr>glass_data := Some ([glass_1A] @ [glass_1A_abc])\<rparr>) initial_ui"
    by blast
  from c2 z have 3: "row_GH (make_row 1 ref_1A glass_1A_zero) = ''-''
      \<and> row_Qty (make_row 1 ref_1A glass_1A_zero) = ''-''
      \<and> totalGlassCount (emit_one ref_1A glass_1A_zero init_state) = totalGlassCount init_state"
    by blast
  from c3 a have 4: "row_GW (make_row 2 ref_1A glass_1A_abc) = ''-''" by blast
  from e g 1 2 z 3 a 4 show ?thesis by blast
qed

end
